theory Spec2Isabelle
  imports Main
begin

section \<open>Data model of \<open>onnx2pytorch/convert/operations.py\<close>\<close>

text \<open>
  The exceptions the translation pass can raise. \<open>NotImplementedError\<close> carries its
  message; \<open>ExtractionError\<close> stands for whatever the external attribute extractor
  raises, which the pass propagates unchanged.
\<close>

datatype error =
    IndexError
  | KeyError string
  | TypeError
  | RuntimeError
  | NotImplementedError string
  | ExtractionError string

text \<open>
  A numpy array or torch tensor: its shape and its elements in row-major order. The
  element type is left open.
\<close>

datatype 'a ndarray = NDArray (shape: "nat list") (elems: "'a list")

text \<open>An initializer (\<open>TensorProto\<close>): name, dimensions and data.\<close>

record 'a tensor =
  name :: string
  dims :: "nat list"
  raw_data :: "'a list"

text \<open>Values that occur in keyword mappings (Python dictionaries keep insertion order).\<close>

datatype 'a pyval =
    PInt int
  | PBool bool
  | PStr string
  | PInts "int list"
  | PArray "'a ndarray"

type_synonym 'a kwargs = "(string \<times> 'a pyval) list"

text \<open>A node (\<open>NodeProto\<close>): operator kind, input names, output names, raw attributes.\<close>

record 'a node =
  op_type :: string
  node_input :: "string list"
  node_output :: "string list"
  attribute :: "(string \<times> 'a pyval) list"

text \<open>
  The model (\<open>ModelProto\<close>): \<open>graph.node\<close>, \<open>graph.initializer\<close> and the versions
  of \<open>opset_import\<close>. Only \<open>graph_node\<close> is mutated by the pass.
\<close>

record 'a onnx_model =
  graph_node :: "'a node list"
  graph_initializer :: "'a tensor list"
  opset_import :: "int list"

text \<open>
  The executable unit built for a node, as the callable and the configuration it was
  built with. The layer builders and the operator library are external: a unit built by
  them is the call that builds it.
  \<^item> \<open>Layer k node params\<close> is \<open>convert_layer(node, k, params)\<close> (\<open>None\<close> when the
    third argument is omitted);
  \<^item> \<open>Linear_layer node params d\<close> is \<open>convert_linear_layer(node, params)\<close> with
    \<open>feature_dim\<close> set to \<open>d\<close>;
  \<^item> \<open>Module c kw\<close> is \<open>c(**kw)\<close> for a class \<open>c\<close> of \<open>torch.nn\<close> or of the
    operator library;
  \<^item> \<open>Torch_fn f\<close> is the built-in \<open>torch.f\<close>, \<open>Partial f kw\<close> is
    \<open>partial(torch.f, **kw)\<close>, \<open>Operator_wrapper f\<close> is \<open>OperatorWrapper(torch.f)\<close>;
  \<^item> \<open>Linear i o w b\<close> is \<open>nn.Linear(i, o)\<close> with weight data \<open>w\<close> and bias \<open>b\<close>
    (\<open>None\<close> when bias is disabled);
  \<^item> \<open>Div y\<close> and \<open>Sub y\<close> close over the right-hand operand \<open>y\<close>.
\<close>

datatype 'a operator =
    Layer string "'a node" "'a tensor list option"
  | Linear_layer "'a node" "'a tensor list" int
  | Batch_norm_layer "'a node" "'a tensor list"
  | Instance_norm_layer "'a node" "'a tensor list"
  | Module string "'a kwargs"
  | Torch_fn string
  | Partial string "'a kwargs"
  | Operator_wrapper string
  | Value_wrapper "'a ndarray"
  | Reshape "'a ndarray option"
  | Div "'a ndarray"
  | Sub "'a ndarray"
  | Linear nat nat "'a ndarray" "'a ndarray option"

type_synonym 'a triple = "string \<times> string \<times> 'a operator"

text \<open>
  What the generator has done when it stops: the triples yielded, the lines printed,
  the exception that ended it (if any), and the model as the pass left it.
\<close>

record 'a outcome =
  yielded :: "'a triple list"
  printed :: "string list"
  raised :: "error option"
  model_after :: "'a onnx_model"

section \<open>Helpers: dictionaries, indexing, strings, tensors\<close>

text \<open>\<open>weights = {tensor.name: tensor for tensor in initializer}\<close>: a later entry wins.\<close>

definition weights_of :: "'a tensor list \<Rightarrow> (string \<rightharpoonup> 'a tensor)" where
  "weights_of ini = map_of (rev (map (\<lambda>t. (name t, t)) ini))"

text \<open>\<open>[weights[p] for p in node.input if p in weights]\<close>\<close>

definition used_params :: "(string \<rightharpoonup> 'a tensor) \<Rightarrow> 'a node \<Rightarrow> 'a tensor list" where
  "used_params weights node = List.map_filter weights (node_input node)"

text \<open>Python's \<open>xs[k]\<close> for an integer \<open>k\<close>: a negative index counts from the end.\<close>

definition py_index :: "'b list \<Rightarrow> int \<Rightarrow> error + 'b" where
  "py_index xs k =
     (let n = int (length xs); j = (if k < 0 then n + k else k)
      in if 0 \<le> j \<and> j < n then Inr (xs ! nat j) else Inl IndexError)"

text \<open>\<open>d[key]\<close> on a dictionary.\<close>

definition py_getitem :: "'a kwargs \<Rightarrow> string \<Rightarrow> error + 'a pyval" where
  "py_getitem kw k = (case map_of kw k of None \<Rightarrow> Inl (KeyError k) | Some v \<Rightarrow> Inr v)"

text \<open>\<open>d[key] = v\<close>: replaces the value in place, or appends a new entry.\<close>

fun py_setitem :: "string \<Rightarrow> 'a pyval \<Rightarrow> 'a kwargs \<Rightarrow> 'a kwargs" where
  "py_setitem k v [] = [(k, v)]"
| "py_setitem k v (p # ps) = (if fst p = k then (k, v) # ps else p # py_setitem k v ps)"

text \<open>\<open>d.update(other)\<close>\<close>

definition py_update :: "'a kwargs \<Rightarrow> 'a kwargs \<Rightarrow> 'a kwargs" where
  "py_update d other = fold (\<lambda>(k, v). py_setitem k v) other d"

text \<open>
  \<open>f(k=v, **kw)\<close> and \<open>f(**kw, k=v)\<close>: a keyword given twice is a \<open>TypeError\<close>;
  otherwise the callee receives the keywords in the order of the call.
\<close>

definition kw_first :: "string \<Rightarrow> 'a pyval \<Rightarrow> 'a kwargs \<Rightarrow> error + 'a kwargs" where
  "kw_first k v kw = (if map_of kw k \<noteq> None then Inl TypeError else Inr ((k, v) # kw))"

definition kw_last :: "'a kwargs \<Rightarrow> string \<Rightarrow> 'a pyval \<Rightarrow> error + 'a kwargs" where
  "kw_last kw k v = (if map_of kw k \<noteq> None then Inl TypeError else Inr (kw @ [(k, v)]))"

text \<open>Sequencing of computations that may raise.\<close>

definition sum_bind :: "error + 'b \<Rightarrow> ('b \<Rightarrow> error + 'c) \<Rightarrow> error + 'c" where
  "sum_bind x f = (case x of Inl e \<Rightarrow> Inl e | Inr v \<Rightarrow> f v)"

text \<open>\<open>torch.from_numpy\<close> accepts arrays only.\<close>

definition from_numpy :: "'a pyval \<Rightarrow> error + 'a ndarray" where
  "from_numpy v = (case v of PArray a \<Rightarrow> Inr a | _ \<Rightarrow> Inl TypeError)"

text \<open>\<open>numpy_helper.to_array\<close>\<close>

definition to_array :: "'a tensor \<Rightarrow> 'a ndarray" where
  "to_array t = NDArray (dims t) (raw_data t)"

text \<open>\<open>str.lower\<close> on ASCII text.\<close>

definition lower_char :: "char \<Rightarrow> char" where
  "lower_char c =
     (let n = (of_char c :: nat) in if 65 \<le> n \<and> n \<le> 90 then char_of (n + 32) else c)"

definition lower :: "string \<Rightarrow> string" where
  "lower s = map lower_char s"

text \<open>
  \<open>Tensor.t()\<close>: a tensor of at most one dimension is returned as it is, a matrix is
  transposed, and more than two dimensions are an error.
\<close>

definition tensor_t :: "'a ndarray \<Rightarrow> error + 'a ndarray" where
  "tensor_t w =
     (case shape w of
        [] \<Rightarrow> Inr w
      | [_] \<Rightarrow> Inr w
      | [r, c] \<Rightarrow>
          Inr (NDArray [c, r] (map (\<lambda>k. elems w ! ((k mod r) * c + k div r)) [0..<c * r]))
      | _ \<Rightarrow> Inl RuntimeError)"

text \<open>The element of a matrix at row \<open>i\<close> and column \<open>j\<close>.\<close>

definition at2 :: "'a ndarray \<Rightarrow> nat \<Rightarrow> nat \<Rightarrow> 'a" where
  "at2 w i j = elems w ! (i * (shape w ! 1) + j)"


section \<open>The translation of one node\<close>

text \<open>
  The result of translating the node at one position: the lines printed, the model
  as the translation left it, and the unit built or the exception raised.
\<close>

type_synonym 'a result = "string list \<times> 'a onnx_model \<times> (error + 'a operator)"

definition built :: "'a onnx_model \<Rightarrow> 'a operator \<Rightarrow> 'a result" where
  "built m op = ([], m, Inr op)"

definition failed :: "'a onnx_model \<Rightarrow> error \<Rightarrow> 'a result" where
  "failed m e = ([], m, Inl e)"

definition finish :: "'a onnx_model \<Rightarrow> error + 'a operator \<Rightarrow> 'a result" where
  "finish m r = ([], m, r)"

text \<open>
  \<open>torch.from_numpy(extract_attributes(node)["constant"])\<close>, the literal of a
  \<open>Constant\<close> node. The attribute extractor \<open>ea\<close> is external and a parameter.
\<close>

definition constant_of :: "('a node \<Rightarrow> error + 'a kwargs) \<Rightarrow> 'a node \<Rightarrow> error + 'a ndarray" where
  "constant_of ea node =
     sum_bind (ea node) (\<lambda>kw. sum_bind (py_getitem kw ''constant'') from_numpy)"

text \<open>
  Lines 101-107 and 133-139: \<open>Div\<close> and \<open>Sub\<close> look at \<open>graph.node[i - 1]\<close>; at
  \<open>i = 0\<close> this is Python's index \<open>-1\<close>.
\<close>

definition after_constant ::
  "('a node \<Rightarrow> error + 'a kwargs) \<Rightarrow> 'a onnx_model \<Rightarrow> nat \<Rightarrow>
   ('a ndarray \<Rightarrow> 'a operator) \<Rightarrow> 'a operator \<Rightarrow> 'a result" where
  "after_constant ea m i special generic =
     (case py_index (graph_node m) (int i - 1) of
        Inl e \<Rightarrow> failed m e
      | Inr prev \<Rightarrow>
          if op_type prev = ''Constant''
          then finish m (sum_bind (constant_of ea prev) (\<lambda>y. Inr (special y)))
          else built m generic)"

text \<open>
  Lines 110-116: the affine unit of a \<open>MatMul\<close> whose first resolved constant is
  \<open>p\<close>. \<open>weight.shape[k]\<close> raises on a tensor of fewer dimensions.
\<close>

definition matmul_linear ::
  "(string \<rightharpoonup> 'a tensor) \<Rightarrow> 'a node \<Rightarrow> 'a tensor \<Rightarrow> error + 'a operator" where
  "matmul_linear weights node p =
     (let weight = to_array p in
      sum_bind (py_index (node_input node) 0) (\<lambda>n0.
        if weights n0 \<noteq> None then
          sum_bind (py_index (shape weight) 1) (\<lambda>s1.
          sum_bind (py_index (shape weight) 0) (\<lambda>s0.
            Inr (Linear s1 s0 weight None)))
        else
          sum_bind (py_index (shape weight) 0) (\<lambda>s0.
          sum_bind (py_index (shape weight) 1) (\<lambda>s1.
          sum_bind (tensor_t weight) (\<lambda>wt.
            Inr (Linear s0 s1 wt None))))))"

text \<open>\<open>op.bias = nn.Parameter(bias)\<close>\<close>

fun set_bias :: "'a operator \<Rightarrow> 'a ndarray \<Rightarrow> 'a operator" where
  "set_bias (Linear fi fo w b) bias = Linear fi fo w (Some bias)"
| "set_bias op bias = op"

text \<open>
  Lines 128-130: \<open>node.output.pop()\<close>, \<open>node.output.extend(next_node.output)\<close> and
  \<open>graph.node.pop(i + 1)\<close>, on the node at position \<open>i\<close>.
\<close>

definition fuse_nodes :: "'a node list \<Rightarrow> nat \<Rightarrow> 'a node \<Rightarrow> 'a node \<Rightarrow> 'a node list" where
  "fuse_nodes ns i node next_node =
     take i ns @
     [node\<lparr>node_output := butlast (node_output node) @ node_output next_node\<rparr>] @
     drop (i + 2) ns"

text \<open>Lines 108-132.\<close>

definition matmul_rule ::
  "(string \<rightharpoonup> 'a tensor) \<Rightarrow> 'a onnx_model \<Rightarrow> nat \<Rightarrow> 'a node \<Rightarrow> 'a tensor list \<Rightarrow> 'a result" where
  "matmul_rule weights m i node params =
     (case params of
        [] \<Rightarrow> built m (Torch_fn ''matmul'')
      | p # _ \<Rightarrow>
          (case matmul_linear weights node p of
             Inl e \<Rightarrow> failed m e
           | Inr op \<Rightarrow>
               (case py_index (graph_node m) (int i + 1) of
                  Inl e \<Rightarrow> failed m e
                | Inr next_node \<Rightarrow>
                    (case used_params weights next_node of
                       [] \<Rightarrow> built m op
                     | b # _ \<Rightarrow>
                         if op_type next_node = ''Add'' then
                           (if node_output node = [] then failed m IndexError
                            else built
                              (m\<lparr>graph_node := fuse_nodes (graph_node m) i node next_node\<rparr>)
                              (set_bias op (to_array b)))
                         else built m op))))"

text \<open>Lines 148-154.\<close>

definition split_kwargs :: "'a node \<Rightarrow> 'a kwargs \<Rightarrow> 'a kwargs" where
  "split_kwargs node kwargs =
     (if map_of kwargs ''split_size_or_sections'' = None
      then py_setitem ''number_of_splits'' (PInt (int (length (node_output node)))) kwargs
      else kwargs)"

text \<open>Lines 71-76: the lambda reads \<open>node.input[1]\<close> once for each initializer.\<close>

definition reshape_rule :: "'a onnx_model \<Rightarrow> 'a node \<Rightarrow> error + 'a operator" where
  "reshape_rule m node =
     (if graph_initializer m = [] then Inr (Reshape None)
      else sum_bind (py_index (node_input node) 1) (\<lambda>n1.
        case filter (\<lambda>x. name x = n1) (graph_initializer m) of
          [] \<Rightarrow> Inr (Reshape None)
        | s # _ \<Rightarrow> Inr (Reshape (Some (to_array s)))))"

text \<open>Lines 193-202; \<open>th\<close> tells which names \<open>torch\<close> has.\<close>

definition fallback :: "(string \<Rightarrow> bool) \<Rightarrow> 'a onnx_model \<Rightarrow> 'a node \<Rightarrow> 'a result" where
  "fallback th m node =
     (if th (lower (op_type node))
      then ([''Automatic inference of operator: '' @ lower (op_type node)], m,
            Inr (Torch_fn (lower (op_type node))))
      else failed m
        (NotImplementedError (''Conversion not implemented for op_type='' @ op_type node @ ''.'')))"


text \<open>A unit configured from the extracted attributes of the node.\<close>

definition with_attributes ::
  "('a node \<Rightarrow> error + 'a kwargs) \<Rightarrow> 'a onnx_model \<Rightarrow> 'a node \<Rightarrow>
   ('a kwargs \<Rightarrow> error + 'a operator) \<Rightarrow> 'a result" where
  "with_attributes ea m node f = finish m (sum_bind (ea node) f)"

text \<open>The operator kinds that have a rule of their own, in the order of the dispatch.\<close>

definition explicit_kinds :: "string list" where
  "explicit_kinds =
     [''Conv'', ''Relu'', ''LeakyRelu'', ''Elu'', ''Sigmoid'', ''MaxPool'',
      ''AveragePool'', ''Flatten'', ''Gemm'', ''BatchNormalization'',
      ''InstanceNormalization'', ''Concat'', ''Constant'', ''Reshape'', ''Shape'',
      ''Expand'', ''Gather'', ''Squeeze'', ''Unsqueeze'', ''ConstantOfShape'',
      ''Range'', ''Slice'', ''Cast'', ''Where'', ''Equal'', ''Mul'', ''Div'',
      ''MatMul'', ''Sub'', ''Pow'', ''Sqrt'', ''Softmax'', ''Transpose'', ''Split'',
      ''ReduceMean'', ''Add'', ''GlobalAveragePool'', ''ConvTranspose'',
      ''Identity'', ''Resize'', ''Upsample'', ''OneHot'', ''Pad'', ''Clip'',
      ''Tanh'', ''Erf'', ''Log'', ''Exp'', ''Reciprocal'', ''And'', ''Or'', ''Not'']"

text \<open>
  Lines 41-202: the unit for the node at position \<open>i\<close>. \<open>weights\<close> and
  \<open>opset_version\<close> are computed once, before the loop.
\<close>

definition translate ::
  "('a node \<Rightarrow> error + 'a kwargs) \<Rightarrow> (string \<Rightarrow> bool) \<Rightarrow> (string \<rightharpoonup> 'a tensor) \<Rightarrow> int \<Rightarrow> int \<Rightarrow>
   'a onnx_model \<Rightarrow> nat \<Rightarrow> 'a result" where
  "translate ea th weights opset_version batch_dim m i =
     (let node = graph_node m ! i;
          params = used_params weights node
      in
      if op_type node = ''Conv'' then
        built m (Layer ''Conv'' node (Some params))
      else if op_type node = ''Relu'' then
        built m (Module ''ReLU'' [(''inplace'', PBool True)])
      else if op_type node = ''LeakyRelu'' then
        with_attributes ea m node (\<lambda>kw. sum_bind (kw_last kw ''inplace'' (PBool True)) (\<lambda>k. Inr (Module ''LeakyReLU'' k)))
      else if op_type node = ''Elu'' then
        with_attributes ea m node (\<lambda>kw. sum_bind (kw_last kw ''inplace'' (PBool True)) (\<lambda>k. Inr (Module ''ELU'' k)))
      else if op_type node = ''Sigmoid'' then
        built m (Module ''Sigmoid'' [])
      else if op_type node = ''MaxPool'' then
        built m (Layer ''MaxPool'' node None)
      else if op_type node = ''AveragePool'' then
        built m (Layer ''AvgPool'' node None)
      else if op_type node = ''Flatten'' then
        with_attributes ea m node (\<lambda>kw. Inr (Module ''Flatten'' kw))
      else if op_type node = ''Gemm'' then
        built m (Linear_layer node params (batch_dim + 1))
      else if op_type node = ''BatchNormalization'' then
        built m (Batch_norm_layer node params)
      else if op_type node = ''InstanceNormalization'' then
        built m (Instance_norm_layer node params)
      else if op_type node = ''Concat'' then
        with_attributes ea m node (\<lambda>kw. Inr (Partial ''cat'' kw))
      else if op_type node = ''Constant'' then
        finish m (sum_bind (constant_of ea node) (\<lambda>c. Inr (Value_wrapper c)))
      else if op_type node = ''Reshape'' then
        finish m (reshape_rule m node)
      else if op_type node = ''Shape'' then
        built m (Module ''Shape'' [])
      else if op_type node = ''Expand'' then
        built m (Module ''Expand'' [])
      else if op_type node = ''Gather'' then
        with_attributes ea m node (\<lambda>kw. Inr (Module ''Gather'' kw))
      else if op_type node = ''Squeeze'' then
        with_attributes ea m node (\<lambda>kw. sum_bind (kw_first ''opset_version'' (PInt opset_version) kw) (\<lambda>k. Inr (Module ''Squeeze'' k)))
      else if op_type node = ''Unsqueeze'' then
        with_attributes ea m node (\<lambda>kw. sum_bind (kw_first ''opset_version'' (PInt opset_version) kw) (\<lambda>k. Inr (Module ''Unsqueeze'' k)))
      else if op_type node = ''ConstantOfShape'' then
        with_attributes ea m node (\<lambda>kw. Inr (Module ''ConstantOfShape'' kw))
      else if op_type node = ''Range'' then
        built m (Module ''Range'' [])
      else if op_type node = ''Slice'' then
        with_attributes ea m node (\<lambda>kw. Inr (Module ''Slice'' kw))
      else if op_type node = ''Cast'' then
        with_attributes ea m node (\<lambda>kw. Inr (Module ''Cast'' kw))
      else if op_type node = ''Where'' then
        built m (Torch_fn ''where'')
      else if op_type node = ''Equal'' then
        built m (Torch_fn ''eq'')
      else if op_type node = ''Mul'' then
        built m (Torch_fn ''mul'')
      else if op_type node = ''Div'' then
        after_constant ea m i Div (Torch_fn ''true_divide'')
      else if op_type node = ''MatMul'' then
        matmul_rule weights m i node params
      else if op_type node = ''Sub'' then
        after_constant ea m i Sub (Torch_fn ''sub'')
      else if op_type node = ''Pow'' then
        built m (Torch_fn ''pow'')
      else if op_type node = ''Sqrt'' then
        built m (Torch_fn ''sqrt'')
      else if op_type node = ''Softmax'' then
        with_attributes ea m node (\<lambda>kw. Inr (Module ''Softmax'' kw))
      else if op_type node = ''Transpose'' then
        with_attributes ea m node (\<lambda>kw. Inr (Partial ''Tensor.permute'' kw))
      else if op_type node = ''Split'' then
        with_attributes ea m node (\<lambda>kw. Inr (Module ''Split'' (split_kwargs node kw)))
      else if op_type node = ''ReduceMean'' then
        with_attributes ea m node (\<lambda>kw. Inr (Partial ''mean'' (py_update [(''keepdim'', PBool True)] kw)))
      else if op_type node = ''Add'' then
        built m (Module ''Add'' [(''feature_dim'', PInt (batch_dim + 1))])
      else if op_type node = ''GlobalAveragePool'' then
        built m (Module ''GlobalAveragePool'' [])
      else if op_type node = ''ConvTranspose'' then
        built m (Layer ''ConvTranspose'' node (Some params))
      else if op_type node = ''Identity'' then
        built m (Module ''Identity'' [])
      else if op_type node = ''Resize'' then
        with_attributes ea m node (\<lambda>kw. Inr (Module ''Resize'' kw))
      else if op_type node = ''Upsample'' then
        with_attributes ea m node (\<lambda>kw. Inr (Module ''Upsample'' kw))
      else if op_type node = ''OneHot'' then
        with_attributes ea m node (\<lambda>kw. Inr (Module ''OneHot'' kw))
      else if op_type node = ''Pad'' then
        with_attributes ea m node (\<lambda>kw. Inr (Module ''Pad'' kw))
      else if op_type node = ''Clip'' then
        built m (Operator_wrapper ''clamp'')
      else if op_type node = ''Tanh'' then
        built m (Operator_wrapper ''tanh'')
      else if op_type node = ''Erf'' then
        built m (Operator_wrapper ''erf'')
      else if op_type node = ''Log'' then
        built m (Operator_wrapper ''log'')
      else if op_type node = ''Exp'' then
        built m (Operator_wrapper ''exp'')
      else if op_type node = ''Reciprocal'' then
        built m (Operator_wrapper ''reciprocal'')
      else if op_type node = ''And'' then
        built m (Operator_wrapper ''logical_and'')
      else if op_type node = ''Or'' then
        built m (Operator_wrapper ''logical_or'')
      else if op_type node = ''Not'' then
        built m (Operator_wrapper ''logical_not'')
      else fallback th m node)"

text \<open>
  Lines 42-206: one turn of the loop. After the unit is built, the triple is named
  from the node's operator kind and \<open>node.output[0]\<close>, read after any rewrite.
\<close>

definition step ::
  "('a node \<Rightarrow> error + 'a kwargs) \<Rightarrow> (string \<Rightarrow> bool) \<Rightarrow> (string \<rightharpoonup> 'a tensor) \<Rightarrow> int \<Rightarrow> int \<Rightarrow>
   'a onnx_model \<Rightarrow> nat \<Rightarrow> string list \<times> 'a onnx_model \<times> (error + 'a triple)" where
  "step ea th weights opset_version batch_dim m i =
     (case translate ea th weights opset_version batch_dim m i of
        (logs, m', Inl e) \<Rightarrow> (logs, m', Inl e)
      | (logs, m', Inr op) \<Rightarrow>
          (let node = graph_node m' ! i in
           case py_index (node_output node) 0 of
             Inl e \<Rightarrow> (logs, m', Inl e)
           | Inr op_id \<Rightarrow> (logs, m', Inr (op_id, op_type node @ ''_'' @ op_id, op))))"


section \<open>The pass\<close>

text \<open>
  Lines 40-206: the loop. \<open>enumerate\<close> reads the node sequence by position and
  stops when the position reaches its current length, so a node removed by the fusion
  is never visited. An exception ends the generator.
\<close>

function walk ::
  "('a node \<Rightarrow> error + 'a kwargs) \<Rightarrow> (string \<Rightarrow> bool) \<Rightarrow> (string \<rightharpoonup> 'a tensor) \<Rightarrow> int \<Rightarrow> int \<Rightarrow>
   'a onnx_model \<Rightarrow> nat \<Rightarrow> 'a outcome" where
  "walk ea th weights opset_version batch_dim m i =
     (if i < length (graph_node m) then
        (case step ea th weights opset_version batch_dim m i of
           (logs, m', Inl e) \<Rightarrow>
             \<lparr>yielded = [], printed = logs, raised = Some e, model_after = m'\<rparr>
         | (logs, m', Inr t) \<Rightarrow>
             (let r = walk ea th weights opset_version batch_dim m' (Suc i)
              in r\<lparr>yielded := t # yielded r, printed := logs @ printed r\<rparr>))
      else \<lparr>yielded = [], printed = [], raised = None, model_after = m\<rparr>)"
  by pat_completeness auto

text \<open>
  Lines 21-38: \<open>convert_operations(onnx_model, batch_dim)\<close>, run to its end.
  \<open>opset_import[0]\<close> raises on a model without opset.
\<close>

definition convert_operations ::
  "('a node \<Rightarrow> error + 'a kwargs) \<Rightarrow> (string \<Rightarrow> bool) \<Rightarrow> 'a onnx_model \<Rightarrow> int \<Rightarrow> 'a outcome" where
  "convert_operations ea th onnx_model batch_dim =
     (let weights = weights_of (graph_initializer onnx_model) in
      case py_index (opset_import onnx_model) 0 of
        Inl e \<Rightarrow> \<lparr>yielded = [], printed = [], raised = Some e, model_after = onnx_model\<rparr>
      | Inr opset_version \<Rightarrow> walk ea th weights opset_version batch_dim onnx_model 0)"

text \<open>
  The first output names of the nodes of a sequence, in order (a node without outputs
  has none).
\<close>

definition first_outputs :: "'a node list \<Rightarrow> string list" where
  "first_outputs ns = concat (map (\<lambda>n. take 1 (node_output n)) ns)"

section \<open>Sample graphs\<close>

text \<open>
  An attribute extractor that returns the raw attributes as they are, a runtime with
  three built-ins, initializers of one, two and three dimensions, and constructors for
  nodes and models, for the concrete instances below.
\<close>

definition attrs_of :: "'a node \<Rightarrow> error + 'a kwargs" where
  "attrs_of node = Inr (attribute node)"

definition make_node :: "string \<Rightarrow> string list \<Rightarrow> string list \<Rightarrow> 'a kwargs \<Rightarrow> 'a node" where
  "make_node kind ins outs attrs =
     \<lparr>op_type = kind, node_input = ins, node_output = outs, attribute = attrs\<rparr>"

definition make_model :: "'a node list \<Rightarrow> 'a tensor list \<Rightarrow> 'a onnx_model" where
  "make_model ns ini = \<lparr>graph_node = ns, graph_initializer = ini, opset_import = [11]\<rparr>"

definition sample_torch :: "string \<Rightarrow> bool" where
  "sample_torch s = (s \<in> set [''abs'', ''neg'', ''floor''])"

definition sample_W :: "int tensor" where
  "sample_W = \<lparr>name = ''W'', dims = [2, 3], raw_data = [1, 2, 3, 4, 5, 6]\<rparr>"

definition sample_b :: "int tensor" where
  "sample_b = \<lparr>name = ''b'', dims = [3], raw_data = [7, 8, 9]\<rparr>"

definition sample_five :: "int ndarray" where
  "sample_five = NDArray [] [5]"

definition sample_graph :: "int onnx_model" where
  "sample_graph = make_model
     [make_node ''MatMul'' [''x'', ''W''] [''y''] [],
      make_node ''Add'' [''y'', ''b''] [''z''] [],
      make_node ''Relu'' [''z''] [''r''] []]
     [sample_W, sample_b]"

definition sample_T :: "int tensor" where
  "sample_T = \<lparr>name = ''T'', dims = [2, 3, 1], raw_data = [1, 2, 3, 4, 5, 6]\<rparr>"

definition sample_vector_graph :: "int onnx_model" where
  "sample_vector_graph = make_model
     [make_node ''MatMul'' [''x'', ''b''] [''y''] [],
      make_node ''Add'' [''y'', ''b''] [''z''] []]
     [sample_W, sample_b]"

definition sample_single_matmul :: "int onnx_model" where
  "sample_single_matmul = make_model
     [make_node ''MatMul'' [''x'', ''W''] [''y''] []]
     [sample_W, sample_b]"

section \<open>Termination of the pass\<close>

text \<open>
  A turn of the loop never lengthens the node sequence, so the distance of the position
  to the end of the sequence decreases.
\<close>

text \<open>Indexing at the positions the pass uses.\<close>

lemma py_index_Suc: "py_index xs (int i + 1) = (if Suc i < length xs then Inr (xs ! Suc i) else Inl IndexError)"
  by (auto simp: py_index_def Let_def nat_add_distrib)

lemma py_index_0: "py_index xs 0 = (case xs of [] \<Rightarrow> Inl IndexError | x # _ \<Rightarrow> Inr x)"
  by (cases xs) (auto simp: py_index_def Let_def)

lemma py_index_pred:
  "i < length xs \<Longrightarrow> py_index xs (int i - 1) = Inr (if i = 0 then last xs else xs ! (i - 1))"
  by (cases xs rule: rev_cases) (auto simp: py_index_def Let_def last_conv_nth nat_diff_distrib' nth_append)

lemma length_fuse_nodes:
  "Suc i < length ns \<Longrightarrow> length (fuse_nodes ns i node nx) = length ns - 1"
  by (simp add: fuse_nodes_def)

lemma matmul_rule_cases:
  assumes "matmul_rule weights m i node params = (logs, m', r)"
  shows "logs = [] \<and> (m' = m \<or>
     (Suc i < length (graph_node m) \<and> op_type (graph_node m ! Suc i) = ''Add'' \<and>
        used_params weights (graph_node m ! Suc i) \<noteq> [] \<and> params \<noteq> [] \<and> node_output node \<noteq> [] \<and>
        m' = m\<lparr>graph_node := fuse_nodes (graph_node m) i node (graph_node m ! Suc i)\<rparr> \<and> (\<exists>op. r = Inr op)))"
  using assms
  by (auto simp: matmul_rule_def built_def failed_def py_index_Suc split: list.splits sum.splits if_splits)

lemma translate_cases:
  assumes "translate ea th weights ov bd m i = (logs, m', r)"
  shows "m' = m \<or>
     (op_type (graph_node m ! i) = ''MatMul'' \<and>
      matmul_rule weights m i (graph_node m ! i) (used_params weights (graph_node m ! i)) = (logs, m', r))"
  using assms
  unfolding translate_def Let_def built_def failed_def finish_def with_attributes_def after_constant_def fallback_def
  by (simp split: if_splits sum.splits)

lemma translate_model_length:
  assumes "translate ea th weights ov bd m i = (logs, m', r)"
  shows "length (graph_node m') \<le> length (graph_node m)"
proof -
  from translate_cases [OF assms] show ?thesis
  proof
    assume "m' = m" then show ?thesis by simp
  next
    assume "op_type (graph_node m ! i) = ''MatMul'' \<and>
      matmul_rule weights m i (graph_node m ! i) (used_params weights (graph_node m ! i)) = (logs, m', r)"
    then have "matmul_rule weights m i (graph_node m ! i) (used_params weights (graph_node m ! i)) = (logs, m', r)"
      by simp
    from matmul_rule_cases [OF this] show ?thesis
      by (auto simp: length_fuse_nodes)
  qed
qed

lemma step_model_length:
  assumes "step ea th weights ov bd m i = (logs, m', r)"
  shows "length (graph_node m') \<le> length (graph_node m)"
  using assms translate_model_length [of ea th weights ov bd m i]
  by (auto simp: step_def Let_def split: prod.splits sum.splits)

lemma step_measure:
  assumes "(logs, m', r) = step ea th weights ov bd m i" and "i < length (graph_node m)"
  shows "length (graph_node m') - Suc i < length (graph_node m) - i"
  using step_model_length [OF assms(1) [symmetric]] assms(2) by simp

termination walk
  apply (relation "measure (\<lambda>(ea, th, weights, ov, bd, m, i). length (graph_node m) - i)")
   apply simp
  apply (auto intro: step_measure)
  done


declare walk.simps [simp del]

section \<open>Facts about the helpers\<close>

lemma used_params_Nil_iff:
  "used_params weights node = [] \<longleftrightarrow> (\<forall>p \<in> set (node_input node). weights p = None)"
  by (auto simp: used_params_def map_filter_def filter_empty_conv)

lemma used_params_first:
  assumes "used_params weights node = p # ps"
  shows "node_input node \<noteq> []"
    and "weights (hd (node_input node)) \<noteq> None \<Longrightarrow> weights (hd (node_input node)) = Some p"
  using assms by (cases "node_input node"; auto simp: used_params_def map_filter_def)+

lemma map_of_py_setitem: "map_of (py_setitem k v kw) = (map_of kw)(k \<mapsto> v)"
  by (induction kw) (auto simp: fun_eq_iff)

lemma tensor_t_matrix:
  assumes "shape w = [r, c]"
  shows "\<exists>wt. tensor_t w = Inr wt \<and> shape wt = [c, r] \<and>
           (\<forall>i<r. \<forall>j<c. at2 wt j i = at2 w i j)"
proof -
  let ?wt = "NDArray [c, r] (map (\<lambda>k. elems w ! ((k mod r) * c + k div r)) [0..<c * r])"
  have t: "tensor_t w = Inr ?wt"
    using assms by (simp add: tensor_t_def)
  have "at2 ?wt j i = at2 w i j" if "i < r" "j < c" for i j
  proof -
    have "j * r + i < j * r + r" using that by simp
    also have "\<dots> = Suc j * r" by simp
    also have "\<dots> \<le> c * r" using that by (intro mult_le_mono1) simp
    finally have lt: "j * r + i < c * r" .
    have "(j * r + i) mod r = i" "(j * r + i) div r = j"
      using that by simp_all
    with lt show ?thesis
      using assms by (simp add: at2_def)
  qed
  with t show ?thesis by auto
qed

lemma walk_end:
  "\<not> i < length (graph_node m) \<Longrightarrow>
   walk ea th weights ov bd m i = \<lparr>yielded = [], printed = [], raised = None, model_after = m\<rparr>"
  by (subst walk.simps) simp

lemma walk_raise:
  "i < length (graph_node m) \<Longrightarrow> step ea th weights ov bd m i = (logs, m', Inl e) \<Longrightarrow>
   walk ea th weights ov bd m i = \<lparr>yielded = [], printed = logs, raised = Some e, model_after = m'\<rparr>"
  by (subst walk.simps) simp

lemma walk_yield:
  "i < length (graph_node m) \<Longrightarrow> step ea th weights ov bd m i = (logs, m', Inr t) \<Longrightarrow>
   walk ea th weights ov bd m i =
     (walk ea th weights ov bd m' (Suc i))
       \<lparr>yielded := t # yielded (walk ea th weights ov bd m' (Suc i)),
        printed := logs @ printed (walk ea th weights ov bd m' (Suc i))\<rparr>"
  by (subst walk.simps) (simp add: Let_def)

lemma translate_fallback:
  assumes "op_type (graph_node m ! i) \<notin> set explicit_kinds"
  shows "translate ea th weights ov bd m i = fallback th m (graph_node m ! i)"
  using assms unfolding translate_def explicit_kinds_def Let_def
  by simp

lemma translate_single_unchanged:
  assumes "translate ea th weights ov bd m i = (logs, m', r)"
    and "\<not> Suc i < length (graph_node m)"
  shows "m' = m"
  using translate_cases [OF assms(1)] assms(2)
  by (auto dest: matmul_rule_cases)

lemma translate_MatMul:
  "op_type (graph_node m ! i) = ''MatMul'' \<Longrightarrow>
   translate ea th weights ov bd m i =
     matmul_rule weights m i (graph_node m ! i) (used_params weights (graph_node m ! i))"
  by (simp add: translate_def Let_def)

lemma matmul_linear_builds:
  assumes "used_params weights node = p # ps"
    and "2 \<le> length (dims p)"
    and "weights (hd (node_input node)) = None \<Longrightarrow> length (dims p) = 2"
  shows "\<exists>fi fo w. matmul_linear weights node p = Inr (Linear fi fo w None)"
proof -
  from used_params_first(1) [OF assms(1)]
  have idx: "py_index (node_input node) 0 = Inr (hd (node_input node))"
    by (cases "node_input node") (simp_all add: py_index_0)
  have sh: "shape (to_array p) = dims p"
    by (simp add: to_array_def)
  from assms(2) have s: "py_index (shape (to_array p)) 0 = Inr (dims p ! 0)"
    "py_index (shape (to_array p)) 1 = Inr (dims p ! 1)"
    by (auto simp: py_index_def sh)
  show ?thesis
  proof (cases "weights (hd (node_input node)) = None")
    case False
    then show ?thesis
      by (simp add: matmul_linear_def Let_def sum_bind_def idx s)
  next
    case True
    from assms(3) [OF True] obtain r c where "dims p = [r, c]"
      by (cases "dims p"; cases "tl (dims p)") auto
    then have "shape (to_array p) = [r, c]"
      by (simp add: sh)
    from tensor_t_matrix [OF this] obtain wt where "tensor_t (to_array p) = Inr wt"
      by blast
    with True show ?thesis
      by (simp add: matmul_linear_def Let_def sum_bind_def idx s)
  qed
qed

lemma fuse_nodes_nth:
  "i < length ns \<Longrightarrow> fuse_nodes ns i node nx ! i =
     node\<lparr>node_output := butlast (node_output node) @ node_output nx\<rparr>"
  by (simp add: fuse_nodes_def nth_append)

lemma fuse_nodes_drop:
  "i < length ns \<Longrightarrow> drop (Suc i) (fuse_nodes ns i node nx) = drop (i + 2) ns"
  by (simp add: fuse_nodes_def)

lemma py_index_0_take: "py_index xs 0 = Inr x \<Longrightarrow> take (Suc 0) xs = [x]"
  by (cases xs) (simp_all add: py_index_0)

lemma step_cases:
  assumes "step ea th weights ov bd m i = (logs, m', Inr t)" and "i < length (graph_node m)"
  shows "(m' = m \<and> take 1 (node_output (graph_node m ! i)) = [fst t]) \<or>
         (Suc i < length (graph_node m) \<and>
          drop (Suc i) (graph_node m') = drop (i + 2) (graph_node m) \<and>
          fst t \<in> set (take 1 (node_output (graph_node m ! i)) @
                       take 1 (node_output (graph_node m ! Suc i))))"
proof -
  from assms(1) obtain op where tr: "translate ea th weights ov bd m i = (logs, m', Inr op)"
    and id: "py_index (node_output (graph_node m' ! i)) 0 = Inr (fst t)"
    by (auto simp: step_def Let_def split: prod.splits sum.splits)
  from translate_cases [OF tr] show ?thesis
  proof
    assume "m' = m"
    with id show ?thesis
      by (simp add: py_index_0_take)
  next
    assume "op_type (graph_node m ! i) = ''MatMul'' \<and>
      matmul_rule weights m i (graph_node m ! i) (used_params weights (graph_node m ! i)) =
        (logs, m', Inr op)"
    then have "matmul_rule weights m i (graph_node m ! i)
        (used_params weights (graph_node m ! i)) = (logs, m', Inr op)"
      by simp
    from matmul_rule_cases [OF this] show ?thesis
    proof (elim conjE disjE)
      assume "m' = m"
      with id show ?thesis
        by (simp add: py_index_0_take)
    next
      let ?node = "graph_node m ! i" and ?next = "graph_node m ! Suc i"
      assume lt: "Suc i < length (graph_node m)"
        and ne: "node_output ?node \<noteq> []"
        and m': "m' = m\<lparr>graph_node := fuse_nodes (graph_node m) i ?node ?next\<rparr>"
      from m' assms(2) have "graph_node m' ! i =
          ?node\<lparr>node_output := butlast (node_output ?node) @ node_output ?next\<rparr>"
        by (simp add: fuse_nodes_nth)
      with id have "py_index (butlast (node_output ?node) @ node_output ?next) 0 = Inr (fst t)"
        by simp
      with ne have "fst t \<in> set (take 1 (node_output ?node) @ take 1 (node_output ?next))"
        by (cases "node_output ?node"; cases "tl (node_output ?node)"; cases "node_output ?next")
          (auto simp: py_index_0 split: if_splits)
      moreover from m' assms(2) have "drop (Suc i) (graph_node m') = drop (i + 2) (graph_node m)"
        by (simp add: fuse_nodes_drop)
      ultimately show ?thesis
        using lt by blast
    qed
  qed
qed

lemma first_outputs_drop:
  "i < length ns \<Longrightarrow>
   first_outputs (drop i ns) = take 1 (node_output (ns ! i)) @ first_outputs (drop (Suc i) ns)"
  by (simp add: first_outputs_def Cons_nth_drop_Suc [symmetric])

lemma walk_ids:
  "set (map fst (yielded (walk ea th weights ov bd m i))) \<subseteq>
     set (first_outputs (drop i (graph_node m))) \<and>
   (distinct (first_outputs (drop i (graph_node m))) \<longrightarrow>
      distinct (map fst (yielded (walk ea th weights ov bd m i))))"
proof (induction ea th weights ov bd m i rule: walk.induct)
  case (1 ea th weights ov bd m i)
  show ?case
  proof (cases "i < length (graph_node m)")
    case False
    then show ?thesis
      by (simp add: walk_end)
  next
    case True
    obtain logs m' r where st: "step ea th weights ov bd m i = (logs, m', r)"
      by (metis prod_cases3)
    show ?thesis
    proof (cases r)
      case (Inl e)
      with st True show ?thesis
        by (simp add: walk_raise)
    next
      case (Inr t)
      let ?rest = "walk ea th weights ov bd m' (Suc i)"
      from "1.IH" [OF True st [symmetric] refl Inr]
      have sub: "set (map fst (yielded ?rest)) \<subseteq> set (first_outputs (drop (Suc i) (graph_node m')))"
        and dist: "distinct (first_outputs (drop (Suc i) (graph_node m'))) \<Longrightarrow>
          distinct (map fst (yielded ?rest))"
        by simp_all
      from st Inr have st': "step ea th weights ov bd m i = (logs, m', Inr t)"
        by simp
      have ys: "map fst (yielded (walk ea th weights ov bd m i)) = fst t # map fst (yielded ?rest)"
        by (simp add: walk_yield [OF True st'])
      from step_cases [OF st' True] show ?thesis
      proof (elim disjE conjE)
        assume same: "m' = m" and id: "take 1 (node_output (graph_node m ! i)) = [fst t]"
        have fo: "first_outputs (drop i (graph_node m)) =
            fst t # first_outputs (drop (Suc i) (graph_node m))"
          using first_outputs_drop [OF True] id by simp
        from sub dist same show ?thesis
          unfolding ys fo by auto
      next
        assume lt: "Suc i < length (graph_node m)"
          and dr: "drop (Suc i) (graph_node m') = drop (i + 2) (graph_node m)"
          and id: "fst t \<in> set (take 1 (node_output (graph_node m ! i)) @
                       take 1 (node_output (graph_node m ! Suc i)))"
        have fo: "first_outputs (drop i (graph_node m)) =
            (take 1 (node_output (graph_node m ! i)) @
             take 1 (node_output (graph_node m ! Suc i))) @
            first_outputs (drop (i + 2) (graph_node m))"
          using first_outputs_drop [OF True] first_outputs_drop [OF lt] by simp
        from sub dist id show ?thesis
          unfolding ys fo dr by auto
      qed
    qed
  qed
qed

lemma translate_keeps_last:
  assumes "translate ea th weights ov bd m i = (logs, m', Inr op)"
    and "i < length (graph_node m)"
    and "op_type (last (graph_node m)) = ''MatMul''"
    and "used_params weights (last (graph_node m)) \<noteq> []"
  shows "Suc i < length (graph_node m') \<and> last (graph_node m') = last (graph_node m)"
proof -
  let ?ns = "graph_node m"
  have not_last: "Suc i < length ?ns"
  proof (rule ccontr)
    assume "\<not> Suc i < length ?ns"
    with assms(2) have i: "Suc i = length ?ns"
      by simp
    with assms(2) have nth: "?ns ! i = last ?ns"
      by (metis diff_Suc_1 last_conv_nth length_greater_0_conv less_nat_zero_code list.size(3))
    from i have "py_index ?ns (int i + 1) = Inl IndexError"
      by (simp add: py_index_Suc)
    with assms(3,4) nth have "\<exists>e. translate ea th weights ov bd m i = ([], m, Inl e)"
      by (auto simp: translate_MatMul matmul_rule_def failed_def split: list.splits sum.splits)
    with assms(1) show False
      by auto
  qed
  from translate_cases [OF assms(1)] show ?thesis
  proof
    assume "m' = m"
    with not_last show ?thesis
      by simp
  next
    assume "op_type (?ns ! i) = ''MatMul'' \<and>
      matmul_rule weights m i (?ns ! i) (used_params weights (?ns ! i)) = (logs, m', Inr op)"
    then have "matmul_rule weights m i (?ns ! i) (used_params weights (?ns ! i)) =
        (logs, m', Inr op)"
      by simp
    from matmul_rule_cases [OF this] show ?thesis
    proof (elim conjE disjE)
      assume "m' = m"
      with not_last show ?thesis
        by simp
    next
      assume add: "op_type (?ns ! Suc i) = ''Add''"
        and m': "m' = m\<lparr>graph_node := fuse_nodes ?ns i (?ns ! i) (?ns ! Suc i)\<rparr>"
      have "Suc i \<noteq> length ?ns - 1"
      proof
        assume "Suc i = length ?ns - 1"
        with not_last have "?ns ! Suc i = last ?ns"
          by (metis last_conv_nth length_0_conv not_less_zero)
        with add assms(3) show False
          by simp
      qed
      with not_last have lt: "Suc (Suc i) < length ?ns"
        by simp
      then have "drop (i + 2) ?ns \<noteq> []"
        by simp
      then have "last (fuse_nodes ?ns i (?ns ! i) (?ns ! Suc i)) = last ?ns"
        by (simp add: fuse_nodes_def)
      with m' lt not_last show ?thesis
        by (simp add: length_fuse_nodes)
    qed
  qed
qed

lemma walk_last_matmul:
  assumes "i < length (graph_node m)"
    and "op_type (last (graph_node m)) = ''MatMul''"
    and "used_params weights (last (graph_node m)) \<noteq> []"
  shows "raised (walk ea th weights ov bd m i) \<noteq> None"
  using assms
proof (induction ea th weights ov bd m i rule: walk.induct)
  case (1 ea th weights ov bd m i)
  obtain logs m' r where st: "step ea th weights ov bd m i = (logs, m', r)"
    by (metis prod_cases3)
  show ?case
  proof (cases r)
    case (Inl e)
    with st "1.prems"(1) show ?thesis
      by (simp add: walk_raise)
  next
    case (Inr t)
    with st obtain op where "translate ea th weights ov bd m i = (logs, m', Inr op)"
      by (auto simp: step_def Let_def split: prod.splits sum.splits)
    from translate_keeps_last [OF this "1.prems"]
    have lt: "Suc i < length (graph_node m')" and l: "last (graph_node m') = last (graph_node m)"
      by simp_all
    from "1.IH" [OF "1.prems"(1) st [symmetric] refl Inr lt] l "1.prems"(2,3)
    have "raised (walk ea th weights ov bd m' (Suc i)) \<noteq> None"
      by simp
    moreover from st Inr have "step ea th weights ov bd m i = (logs, m', Inr t)"
      by simp
    ultimately show ?thesis
      by (simp add: walk_yield [OF "1.prems"(1)])
  qed
qed

section \<open>The sample graphs evaluated\<close>

lemma sample_selectors:
  "op_type (make_node k ins outs attrs) = k"
  "node_input (make_node k ins outs attrs) = ins"
  "node_output (make_node k ins outs attrs) = outs"
  "attribute (make_node k ins outs attrs) = attrs"
  "graph_node (make_model ns ini) = ns"
  "graph_initializer (make_model ns ini) = ini"
  "opset_import (make_model ns ini) = [11]"
  by (simp_all add: make_node_def make_model_def)

lemma sample_weights:
  "weights_of [sample_W, sample_b] ''W'' = Some sample_W"
  "weights_of [sample_W, sample_b] ''b'' = Some sample_b"
  "weights_of [sample_W, sample_b] ''x'' = None"
  "weights_of [sample_W, sample_b] ''y'' = None"
  "weights_of [sample_W, sample_b] ''z'' = None"
  by (simp_all add: weights_of_def sample_W_def sample_b_def)

lemma sample_transpose:
  "tensor_t (to_array sample_W) = Inr (NDArray [3, 2] [1, 4, 2, 5, 3, 6])"
  by (simp add: tensor_t_def to_array_def sample_W_def upt_rec)

lemma sample_lower: "lower ''Abs'' = ''abs''" "lower ''Foo'' = ''foo''"
  by code_simp+

lemma sample_constant:
  "constant_of attrs_of (make_node ''Constant'' [] [''c''] [(''constant'', PArray sample_five)]) =
     Inr sample_five"
  by (simp add: constant_of_def attrs_of_def sum_bind_def py_getitem_def from_numpy_def
      sample_selectors)

lemma sample_used_params:
  "used_params (weights_of [sample_W, sample_b]) (make_node k [''x'', ''W''] outs attrs) = [sample_W]"
  "used_params (weights_of [sample_W, sample_b]) (make_node k [''W'', ''x''] outs attrs) = [sample_W]"
  "used_params (weights_of [sample_W, sample_b]) (make_node k [''y'', ''b''] outs attrs) = [sample_b]"
  by (simp_all add: used_params_def map_filter_def sample_selectors sample_weights)

lemma sample_shape: "shape (to_array sample_W) = [2, 3]"
  by (simp add: to_array_def sample_W_def)

lemma sample_linear:
  "matmul_linear (weights_of [sample_W, sample_b]) (make_node k [''x'', ''W''] outs attrs) sample_W =
     Inr (Linear 2 3 (NDArray [3, 2] [1, 4, 2, 5, 3, 6]) None)"
  by (simp add: matmul_linear_def Let_def sum_bind_def py_index_def sample_selectors sample_weights
      sample_transpose sample_shape)

lemma sample_pass:
  "convert_operations attrs_of sample_torch sample_graph 0 =
     \<lparr>yielded =
        [(''z'', ''MatMul_z'',
          Linear 2 3 (NDArray [3, 2] [1, 4, 2, 5, 3, 6]) (Some (NDArray [3] [7, 8, 9]))),
         (''r'', ''Relu_r'', Module ''ReLU'' [(''inplace'', PBool True)])],
      printed = [], raised = None,
      model_after = make_model
        [make_node ''MatMul'' [''x'', ''W''] [''z''] [],
         make_node ''Relu'' [''z''] [''r''] []]
        [sample_W, sample_b]\<rparr>"
  by code_simp

lemma sample_T_weights:
  "weights_of [sample_T, sample_b] ''T'' = Some sample_T"
  "weights_of [sample_T, sample_b] ''b'' = Some sample_b"
  "weights_of [sample_T, sample_b] ''x'' = None"
  "weights_of [sample_T, sample_b] ''y'' = None"
  by (simp_all add: weights_of_def sample_T_def sample_b_def)

lemma sample_T_used_params:
  "used_params (weights_of [sample_T, sample_b]) (make_node k [''T'', ''x''] outs attrs) = [sample_T]"
  "used_params (weights_of [sample_T, sample_b]) (make_node k [''y'', ''b''] outs attrs) = [sample_b]"
  by (simp_all add: used_params_def map_filter_def sample_selectors sample_T_weights)

lemma sample_T_shape: "shape (to_array sample_T) = [2, 3, 1]"
  by (simp add: to_array_def sample_T_def)

lemma sample_T_linear:
  "matmul_linear (weights_of [sample_T, sample_b]) (make_node k [''T'', ''x''] outs attrs) sample_T =
     Inr (Linear 3 2 (to_array sample_T) None)"
  by (simp add: matmul_linear_def Let_def sum_bind_def py_index_def sample_selectors
      sample_T_weights sample_T_shape)

section \<open>The claims\<close>

text \<open>
  Claim C2 (lines 108-116). For a \<open>MatMul\<close> node with a resolved constant input, where
  \<open>p\<close> is the first resolved constant and a matrix of \<open>r\<close> rows and \<open>c\<close> columns,
  the affine unit \<open>Linear fi fo w None\<close> is built with bias disabled: if the node's first
  input name is in the Weight Index, \<open>p\<close> is that input's tensor, \<open>in = c\<close>,
  \<open>out = r\<close> and the weight is the constant itself; otherwise \<open>in = r\<close>, \<open>out = c\<close>
  and the weight is the transpose of the constant (of shape \<open>c \<times> r\<close>, with the entry at
  \<open>(l, k)\<close> equal to the constant's entry at \<open>(k, l)\<close>). The translation of the node
  yields this unit as it is, with the model unchanged, unless the following node is an
  \<open>Add\<close> with a resolved constant, which is fused into it as its bias (or the
  \<open>MatMul\<close> has no output to rename); with no following node the lookahead raises.
\<close>

theorem matmul_orientation:
  assumes "op_type (graph_node m ! i) = ''MatMul''"
    and "used_params weights (graph_node m ! i) = p # ps"
    and "dims p = [r, c]"
  shows "\<exists>fi fo w.
           (weights (hd (node_input (graph_node m ! i))) \<noteq> None \<longrightarrow>
              weights (hd (node_input (graph_node m ! i))) = Some p \<and>
              fi = c \<and> fo = r \<and> w = to_array p) \<and>
           (weights (hd (node_input (graph_node m ! i))) = None \<longrightarrow>
              fi = r \<and> fo = c \<and> tensor_t (to_array p) = Inr w \<and> shape w = [c, r] \<and>
              (\<forall>k<r. \<forall>l<c. at2 w l k = at2 (to_array p) k l)) \<and>
           matmul_linear weights (graph_node m ! i) p = Inr (Linear fi fo w None) \<and>
           translate ea th weights ov bd m i =
             (if Suc i < length (graph_node m) then
                (if op_type (graph_node m ! Suc i) = ''Add'' \<and>
                    used_params weights (graph_node m ! Suc i) \<noteq> []
                 then
                   (if node_output (graph_node m ! i) = [] then ([], m, Inl IndexError)
                    else ([], m\<lparr>graph_node :=
                                 fuse_nodes (graph_node m) i (graph_node m ! i)
                                   (graph_node m ! Suc i)\<rparr>,
                          Inr (Linear fi fo w
                                 (Some (to_array (hd (used_params weights (graph_node m ! Suc i))))))))
                 else ([], m, Inr (Linear fi fo w None)))
              else ([], m, Inl IndexError))"
proof -
  let ?node = "graph_node m ! i" and ?next = "graph_node m ! Suc i"
  from used_params_first [OF assms(2)]
  have ne: "node_input ?node \<noteq> []"
    and fst: "weights (hd (node_input ?node)) \<noteq> None \<Longrightarrow> weights (hd (node_input ?node)) = Some p"
    by simp_all
  from ne have idx: "py_index (node_input ?node) 0 = Inr (hd (node_input ?node))"
    by (cases "node_input ?node") (simp_all add: py_index_0)
  have sh: "shape (to_array p) = [r, c]"
    using assms(3) by (simp add: to_array_def)
  then have s0: "py_index (shape (to_array p)) 0 = Inr r"
    and s1: "py_index (shape (to_array p)) 1 = Inr c"
    by (simp_all add: py_index_def)
  from tensor_t_matrix [OF sh] obtain wt where wt: "tensor_t (to_array p) = Inr wt"
    "shape wt = [c, r]" "\<forall>k<r. \<forall>l<c. at2 wt l k = at2 (to_array p) k l"
    by blast
  have tr: "translate ea th weights ov bd m i =
      (if Suc i < length (graph_node m) then
         (if op_type ?next = ''Add'' \<and> used_params weights ?next \<noteq> [] then
            (if node_output ?node = [] then ([], m, Inl IndexError)
             else ([], m\<lparr>graph_node := fuse_nodes (graph_node m) i ?node ?next\<rparr>,
                   Inr (Linear fi fo w (Some (to_array (hd (used_params weights ?next)))))))
          else ([], m, Inr (Linear fi fo w None)))
       else ([], m, Inl IndexError))"
    if "matmul_linear weights ?node p = Inr (Linear fi fo w None)" for fi fo w
    using that assms(2)
    by (cases "used_params weights ?next")
      (simp_all add: translate_MatMul [OF assms(1)] matmul_rule_def py_index_Suc built_def
        failed_def)
  show ?thesis
  proof (cases "weights (hd (node_input ?node)) = None")
    case True
    then have lin: "matmul_linear weights ?node p = Inr (Linear r c wt None)"
      by (simp add: matmul_linear_def Let_def sum_bind_def idx s0 s1 wt(1))
    from True wt lin tr [OF lin] show ?thesis
      by (intro exI [of _ r] exI [of _ c] exI [of _ wt]) simp
  next
    case False
    then have lin: "matmul_linear weights ?node p = Inr (Linear c r (to_array p) None)"
      by (simp add: matmul_linear_def Let_def sum_bind_def idx s0 s1)
    from False fst lin tr [OF lin] show ?thesis
      by (intro exI [of _ c] exI [of _ r] exI [of _ "to_array p"]) simp
  qed
qed

theorem matmul_orientation_witness:
  "translate attrs_of sample_torch (weights_of [sample_W, sample_b]) 11 0
     (make_model
        [make_node ''MatMul'' [''x'', ''W''] [''y''] [],
         make_node ''Relu'' [''y''] [''r''] []] [sample_W, sample_b]) 0 =
     ([], make_model
        [make_node ''MatMul'' [''x'', ''W''] [''y''] [],
         make_node ''Relu'' [''y''] [''r''] []] [sample_W, sample_b],
      Inr (Linear 2 3 (NDArray [3, 2] [1, 4, 2, 5, 3, 6]) None)) \<and>
   translate attrs_of sample_torch (weights_of [sample_W, sample_b]) 11 0
     (make_model
        [make_node ''MatMul'' [''W'', ''x''] [''y''] [],
         make_node ''Relu'' [''y''] [''r''] []] [sample_W, sample_b]) 0 =
     ([], make_model
        [make_node ''MatMul'' [''W'', ''x''] [''y''] [],
         make_node ''Relu'' [''y''] [''r''] []] [sample_W, sample_b],
      Inr (Linear 3 2 (to_array sample_W) None))"
proof -
  let ?w = "weights_of [sample_W, sample_b]"
  let ?m1 = "make_model
        [make_node ''MatMul'' [''x'', ''W''] [''y''] [],
         make_node ''Relu'' [''y''] [''r''] []] [sample_W, sample_b]"
  let ?m2 = "make_model
        [make_node ''MatMul'' [''W'', ''x''] [''y''] [],
         make_node ''Relu'' [''y''] [''r''] []] [sample_W, sample_b]"
  have d: "dims sample_W = [2, 3]"
    by (simp add: sample_W_def)
  have k1: "op_type (graph_node ?m1 ! 0) = ''MatMul''"
    and k2: "op_type (graph_node ?m2 ! 0) = ''MatMul''"
    and u1: "used_params ?w (graph_node ?m1 ! 0) = sample_W # []"
    and u2: "used_params ?w (graph_node ?m2 ! 0) = sample_W # []"
    by (simp_all add: sample_selectors sample_used_params)
  have h1: "?w (hd (node_input (graph_node ?m1 ! 0))) = None"
    and h2: "?w (hd (node_input (graph_node ?m2 ! 0))) \<noteq> None"
    and n1: "Suc 0 < length (graph_node ?m1)" "op_type (graph_node ?m1 ! Suc 0) \<noteq> ''Add''"
    and n2: "Suc 0 < length (graph_node ?m2)" "op_type (graph_node ?m2 ! Suc 0) \<noteq> ''Add''"
    by (simp_all add: sample_selectors sample_weights)
  from matmul_orientation [OF k1 u1 d, of attrs_of sample_torch 11 0] h1 n1
  obtain w where "tensor_t (to_array sample_W) = Inr w"
    and "translate attrs_of sample_torch ?w 11 0 ?m1 0 = ([], ?m1, Inr (Linear 2 3 w None))"
    by auto
  then have first: "translate attrs_of sample_torch ?w 11 0 ?m1 0 =
      ([], ?m1, Inr (Linear 2 3 (NDArray [3, 2] [1, 4, 2, 5, 3, 6]) None))"
    by (simp add: sample_transpose)
  from matmul_orientation [OF k2 u2 d, of attrs_of sample_torch 11 0] h2 n2
  have "translate attrs_of sample_torch ?w 11 0 ?m2 0 =
      ([], ?m2, Inr (Linear 3 2 (to_array sample_W) None))"
    by auto
  with first show ?thesis
    by blast
qed

text \<open>
  Claim C3 (lines 101-107 and 133-139). For a \<open>Sub\<close> or \<open>Div\<close> node at a position
  \<open>i \<ge> 1\<close>: if the node at position \<open>i - 1\<close> is a \<open>Constant\<close> node, the unit is the
  specialized \<open>Sub\<close> or \<open>Div\<close> closing over that node's decoded literal (a failure to
  decode it is raised); if it has any other kind, the unit is the generic
  \<open>torch.sub\<close> or \<open>torch.true_divide\<close>. The node sequence is left as it was.
\<close>

theorem sub_div_after_constant:
  assumes "0 < i" and "i < length (graph_node m)"
    and "op_type (graph_node m ! i) = ''Sub'' \<or> op_type (graph_node m ! i) = ''Div''"
  shows "translate ea th weights ov bd m i =
           (if op_type (graph_node m ! (i - 1)) = ''Constant''
            then ([], m, case constant_of ea (graph_node m ! (i - 1)) of
                           Inl e \<Rightarrow> Inl e
                         | Inr y \<Rightarrow> Inr (if op_type (graph_node m ! i) = ''Sub'' then Sub y else Div y))
            else ([], m, Inr (Torch_fn
                    (if op_type (graph_node m ! i) = ''Sub'' then ''sub'' else ''true_divide''))))"
proof -
  from assms(1,2) have "py_index (graph_node m) (int i - 1) = Inr (graph_node m ! (i - 1))"
    by (simp add: py_index_pred)
  with assms(3) show ?thesis
    by (auto simp: translate_def after_constant_def finish_def built_def sum_bind_def
        split: sum.splits)
qed

theorem sub_div_after_constant_witness:
  "translate attrs_of sample_torch Map.empty 11 0
     (make_model
        [make_node ''Constant'' [] [''c''] [(''constant'', PArray sample_five)],
         make_node ''Sub'' [''x'', ''c''] [''y''] []] []) 1 =
   ([], make_model
        [make_node ''Constant'' [] [''c''] [(''constant'', PArray sample_five)],
         make_node ''Sub'' [''x'', ''c''] [''y''] []] [],
    Inr (Sub sample_five)) \<and>
   translate attrs_of sample_torch Map.empty 11 0
     (make_model
        [make_node ''Relu'' [''x''] [''r''] [],
         make_node ''Div'' [''r'', ''x''] [''y''] []] []) 1 =
   ([], make_model
        [make_node ''Relu'' [''x''] [''r''] [],
         make_node ''Div'' [''r'', ''x''] [''y''] []] [],
    Inr (Torch_fn ''true_divide''))"
proof -
  let ?m1 = "make_model
        [make_node ''Constant'' [] [''c''] [(''constant'', PArray sample_five)],
         make_node ''Sub'' [''x'', ''c''] [''y''] []] []"
  let ?m2 = "make_model
        [make_node ''Relu'' [''x''] [''r''] [],
         make_node ''Div'' [''r'', ''x''] [''y''] []] []"
  have a: "(0::nat) < 1" by simp
  have b1: "1 < length (graph_node ?m1)" and b2: "1 < length (graph_node ?m2)"
    by (simp_all add: sample_selectors)
  have c1: "op_type (graph_node ?m1 ! 1) = ''Sub'' \<or> op_type (graph_node ?m1 ! 1) = ''Div''"
    and c2: "op_type (graph_node ?m2 ! 1) = ''Sub'' \<or> op_type (graph_node ?m2 ! 1) = ''Div''"
    by (simp_all add: sample_selectors)
  show ?thesis
    using sub_div_after_constant [OF a b1 c1, of attrs_of sample_torch Map.empty 11 0]
      sub_div_after_constant [OF a b2 c2, of attrs_of sample_torch Map.empty 11 0]
    by (simp add: sample_selectors sample_constant)
qed

text \<open>
  Claim C4 (lines 193-202). For a node whose operator kind has no rule of its own: if
  \<open>torch\<close> has an attribute named as the lowercased kind, the unit is that built-in
  and exactly one line is printed, naming the inferred operator; if not, the pass stops
  at that node with a \<open>NotImplementedError\<close> whose message carries the operator kind,
  having yielded no triple for it.
\<close>

theorem unrecognized_kind:
  assumes "i < length (graph_node m)"
    and "op_type (graph_node m ! i) \<notin> set explicit_kinds"
  shows "(th (lower (op_type (graph_node m ! i))) \<longrightarrow>
            translate ea th weights ov bd m i =
              ([''Automatic inference of operator: '' @ lower (op_type (graph_node m ! i))], m,
               Inr (Torch_fn (lower (op_type (graph_node m ! i)))))) \<and>
         (\<not> th (lower (op_type (graph_node m ! i))) \<longrightarrow>
            walk ea th weights ov bd m i =
              \<lparr>yielded = [], printed = [],
               raised = Some (NotImplementedError
                 (''Conversion not implemented for op_type='' @ op_type (graph_node m ! i) @ ''.'')),
               model_after = m\<rparr>)"
proof (intro conjI impI)
  assume "th (lower (op_type (graph_node m ! i)))"
  then show "translate ea th weights ov bd m i =
      ([''Automatic inference of operator: '' @ lower (op_type (graph_node m ! i))], m,
       Inr (Torch_fn (lower (op_type (graph_node m ! i)))))"
    by (simp add: translate_fallback [OF assms(2)] fallback_def)
next
  assume "\<not> th (lower (op_type (graph_node m ! i)))"
  then have "step ea th weights ov bd m i =
      ([], m, Inl (NotImplementedError
         (''Conversion not implemented for op_type='' @ op_type (graph_node m ! i) @ ''.'')))"
    by (simp add: step_def translate_fallback [OF assms(2)] fallback_def failed_def)
  from walk_raise [OF assms(1) this] show "walk ea th weights ov bd m i =
      \<lparr>yielded = [], printed = [],
       raised = Some (NotImplementedError
         (''Conversion not implemented for op_type='' @ op_type (graph_node m ! i) @ ''.'')),
       model_after = m\<rparr>" .
qed

theorem unrecognized_kind_witness:
  "translate attrs_of sample_torch Map.empty 11 0
     (make_model [make_node ''Abs'' [''x''] [''y''] []] [sample_W, sample_b]) 0 =
   ([''Automatic inference of operator: abs''],
    make_model [make_node ''Abs'' [''x''] [''y''] []] [sample_W, sample_b], Inr (Torch_fn ''abs'')) \<and>
   walk attrs_of sample_torch Map.empty 11 0
     (make_model [make_node ''Foo'' [''x''] [''y''] []] [sample_W, sample_b]) 0 =
   \<lparr>yielded = [], printed = [],
    raised = Some (NotImplementedError ''Conversion not implemented for op_type=Foo.''),
    model_after = make_model [make_node ''Foo'' [''x''] [''y''] []] [sample_W, sample_b]\<rparr>"
proof -
  let ?m1 = "make_model [make_node ''Abs'' [''x''] [''y''] []] [sample_W, sample_b]"
  let ?m2 = "make_model [make_node ''Foo'' [''x''] [''y''] []] [sample_W, sample_b]"
  have a1: "0 < length (graph_node ?m1)" and a2: "0 < length (graph_node ?m2)"
    by (simp_all add: sample_selectors)
  have b1: "op_type (graph_node ?m1 ! 0) \<notin> set explicit_kinds"
    and b2: "op_type (graph_node ?m2 ! 0) \<notin> set explicit_kinds"
    by (simp_all add: sample_selectors explicit_kinds_def)
  have t: "sample_torch ''abs''" "\<not> sample_torch ''foo''"
    by (simp_all add: sample_torch_def)
  show ?thesis
    using unrecognized_kind [OF a1 b1, of sample_torch attrs_of Map.empty 11 0]
      unrecognized_kind [OF a2 b2, of sample_torch attrs_of Map.empty 11 0] t
    by (simp add: sample_selectors sample_lower)
qed

text \<open>
  Lines 204-206: for a model of a single node for which the dispatch builds a unit
  \<open>op\<close> and which has a first output name \<open>op_id\<close>, the pass yields exactly one
  triple: \<open>op_id\<close>, the operator kind joined to \<open>op_id\<close> by an underscore, and
  \<open>op\<close>; it raises nothing and leaves the node sequence as it was.
\<close>

lemma single_node_named:
  assumes "graph_node m = [node]"
    and "opset_import m = ov # ovs"
    and "translate ea th (weights_of (graph_initializer m)) ov bd m 0 = (logs, m', Inr op)"
    and "node_output node = op_id # outs"
  shows "convert_operations ea th m bd =
           \<lparr>yielded = [(op_id, op_type node @ ''_'' @ op_id, op)], printed = logs,
            raised = None, model_after = m\<rparr>"
proof -
  let ?w = "weights_of (graph_initializer m)"
  from assms(1,3) have m': "m' = m"
    by (intro translate_single_unchanged [of ea th ?w ov bd m 0 logs m' "Inr op"]) simp_all
  with assms(1,3,4) have st: "step ea th ?w ov bd m 0 =
      (logs, m, Inr (op_id, op_type node @ ''_'' @ op_id, op))"
    by (simp add: step_def py_index_0)
  have "walk ea th ?w ov bd m 0 =
      \<lparr>yielded = [(op_id, op_type node @ ''_'' @ op_id, op)], printed = logs,
       raised = None, model_after = m\<rparr>"
    using assms(1) by (simp add: walk_yield [OF _ st] walk_end)
  with assms(2) show ?thesis
    by (simp add: convert_operations_def py_index_0)
qed

lemma single_node_named_sample:
  "convert_operations attrs_of sample_torch
     (make_model [make_node ''Relu'' [''x''] [''y''] []] []) 0 =
   \<lparr>yielded = [(''y'', ''Relu_y'', Module ''ReLU'' [(''inplace'', PBool True)])], printed = [],
    raised = None, model_after = make_model [make_node ''Relu'' [''x''] [''y''] []] []\<rparr>"
proof -
  let ?m = "make_model [make_node ''Relu'' [''x''] [''y''] []] []"
  have a: "graph_node ?m = [make_node ''Relu'' [''x''] [''y''] []]"
    and b: "opset_import ?m = 11 # []"
    by (simp_all add: sample_selectors)
  have c: "translate attrs_of sample_torch (weights_of (graph_initializer ?m)) 11 0 ?m 0 =
      ([], ?m, Inr (Module ''ReLU'' [(''inplace'', PBool True)]))"
    by (simp add: translate_def Let_def built_def sample_selectors)
  have d: "node_output (make_node ''Relu'' [''x''] [''y''] []) = ''y'' # []"
    by (simp add: sample_selectors)
  from single_node_named [OF a b c d] show ?thesis
    by (simp add: sample_selectors)
qed

text \<open>
  Claim C5 (lines 204-206, with lines 118-119). The claim is that every supported single
  node translated in isolation, no fusion applying, yields exactly one triple. A
  \<open>MatMul\<close> with a resolved constant input is such a node: its affine unit is built
  (lines 110-116) and no \<open>Add\<close> follows. But the lookahead \<open>graph.node[i + 1]\<close> of line
  119 is not guarded, so the pass over this single node raises \<open>IndexError\<close> and yields
  no triple.
\<close>

theorem single_matmul_yields_nothing:
  "graph_node sample_single_matmul = [make_node ''MatMul'' [''x'', ''W''] [''y''] []] \<and>
   matmul_linear (weights_of (graph_initializer sample_single_matmul))
     (graph_node sample_single_matmul ! 0) sample_W =
     Inr (Linear 2 3 (NDArray [3, 2] [1, 4, 2, 5, 3, 6]) None) \<and>
   convert_operations attrs_of sample_torch sample_single_matmul 0 =
     \<lparr>yielded = [], printed = [], raised = Some IndexError,
      model_after = sample_single_matmul\<rparr>"
  by code_simp

text \<open>
  Claim C7 (lines 109-132). For a \<open>MatMul\<close> node none of whose input names is in the
  Weight Index, the unit is the generic \<open>torch.matmul\<close>, nothing is printed and the
  model, with its node sequence, is left as it was.
\<close>

theorem matmul_without_constant:
  assumes "i < length (graph_node m)"
    and "op_type (graph_node m ! i) = ''MatMul''"
    and "\<forall>p \<in> set (node_input (graph_node m ! i)). weights p = None"
  shows "translate ea th weights ov bd m i = ([], m, Inr (Torch_fn ''matmul''))"
proof -
  from assms(3) have "used_params weights (graph_node m ! i) = []"
    by (simp add: used_params_Nil_iff)
  with assms(2) show ?thesis
    by (simp add: translate_def matmul_rule_def built_def)
qed

theorem matmul_without_constant_witness:
  "translate attrs_of sample_torch (weights_of [sample_W, sample_b]) 11 0
     (make_model [make_node ''MatMul'' [''x'', ''z''] [''y''] []] [sample_W, sample_b]) 0 =
   ([], make_model [make_node ''MatMul'' [''x'', ''z''] [''y''] []] [sample_W, sample_b],
    Inr (Torch_fn ''matmul''))"
  by (rule matmul_without_constant) (simp_all add: sample_selectors sample_weights)

text \<open>
  Claim C8 (lines 148-154). For a \<open>Split\<close> node whose extracted attributes \<open>kw\<close>
  have no \<open>split_size_or_sections\<close>, the unit is \<open>Split\<close> configured with
  \<open>number_of_splits\<close> equal to the number of the node's outputs, every other keyword
  being as extracted.
\<close>

theorem split_number_of_splits:
  assumes "op_type (graph_node m ! i) = ''Split''"
    and "ea (graph_node m ! i) = Inr kw"
    and "map_of kw ''split_size_or_sections'' = None"
  shows "translate ea th weights ov bd m i =
           ([], m, Inr (Module ''Split''
              (py_setitem ''number_of_splits''
                 (PInt (int (length (node_output (graph_node m ! i))))) kw))) \<and>
         map_of (py_setitem ''number_of_splits''
                 (PInt (int (length (node_output (graph_node m ! i))))) kw) =
           (map_of kw)(''number_of_splits'' \<mapsto> PInt (int (length (node_output (graph_node m ! i)))))"
  using assms
  by (simp add: translate_def with_attributes_def finish_def sum_bind_def split_kwargs_def
      map_of_py_setitem)

theorem split_number_of_splits_witness:
  "translate attrs_of sample_torch (weights_of [sample_W, sample_b]) 11 0
     (make_model [make_node ''Split'' [''x''] [''a'', ''b'', ''c''] [(''dim'', PInt 1)]]
        [sample_W, sample_b]) 0 =
   ([], make_model [make_node ''Split'' [''x''] [''a'', ''b'', ''c''] [(''dim'', PInt 1)]]
        [sample_W, sample_b],
    Inr (Module ''Split'' [(''dim'', PInt 1), (''number_of_splits'', PInt 3)]))"
proof -
  let ?m = "make_model [make_node ''Split'' [''x''] [''a'', ''b'', ''c''] [(''dim'', PInt 1)]]
        [sample_W, sample_b]"
  have a: "op_type (graph_node ?m ! 0) = ''Split''"
    by (simp add: sample_selectors)
  have b: "attrs_of (graph_node ?m ! 0) = Inr [(''dim'', PInt 1)]"
    by (simp add: attrs_of_def sample_selectors)
  have c: "map_of [(''dim'', PInt 1 :: int pyval)] ''split_size_or_sections'' = None"
    by simp
  from split_number_of_splits [of ?m 0 attrs_of "[(''dim'', PInt 1)]" sample_torch
        "weights_of [sample_W, sample_b]" 11 0, OF a b c]
  show ?thesis
    by (simp add: sample_selectors)
qed

text \<open>
  Claim C9 (lines 101-107 and 133-139). For a \<open>Sub\<close> or \<open>Div\<close> node at position 0,
  \<open>graph.node[i - 1]\<close> is the last node of the sequence: when that node is a
  \<open>Constant\<close>, the unit is the specialized \<open>Sub\<close> or \<open>Div\<close> closing over the last
  node's literal, although no node precedes the first.
\<close>

theorem sub_div_first_reads_last:
  assumes "graph_node m \<noteq> []"
    and "op_type (graph_node m ! 0) = ''Sub'' \<or> op_type (graph_node m ! 0) = ''Div''"
    and "op_type (last (graph_node m)) = ''Constant''"
  shows "translate ea th weights ov bd m 0 =
           ([], m, case constant_of ea (last (graph_node m)) of
                     Inl e \<Rightarrow> Inl e
                   | Inr y \<Rightarrow> Inr (if op_type (graph_node m ! 0) = ''Sub'' then Sub y else Div y))"
proof -
  from assms(1) have "py_index (graph_node m) (int 0 - 1) = Inr (last (graph_node m))"
    using py_index_pred [of 0 "graph_node m"] by simp
  with assms(2,3) show ?thesis
    by (auto simp: translate_def after_constant_def finish_def built_def sum_bind_def
        split: sum.splits)
qed

theorem sub_div_first_reads_last_witness:
  "translate attrs_of sample_torch Map.empty 11 0
     (make_model
        [make_node ''Sub'' [''x'', ''c''] [''y''] [],
         make_node ''Relu'' [''y''] [''r''] [],
         make_node ''Constant'' [] [''c''] [(''constant'', PArray sample_five)]] []) 0 =
   ([], make_model
        [make_node ''Sub'' [''x'', ''c''] [''y''] [],
         make_node ''Relu'' [''y''] [''r''] [],
         make_node ''Constant'' [] [''c''] [(''constant'', PArray sample_five)]] [],
    Inr (Sub sample_five))"
proof -
  let ?m = "make_model
        [make_node ''Sub'' [''x'', ''c''] [''y''] [],
         make_node ''Relu'' [''y''] [''r''] [],
         make_node ''Constant'' [] [''c''] [(''constant'', PArray sample_five)]] []"
  have a: "graph_node ?m \<noteq> []"
    and b: "op_type (graph_node ?m ! 0) = ''Sub'' \<or> op_type (graph_node ?m ! 0) = ''Div''"
    and c: "op_type (last (graph_node ?m)) = ''Constant''"
    by (simp_all add: sample_selectors)
  from sub_div_first_reads_last [OF a b c, of attrs_of sample_torch Map.empty 11 0]
  show ?thesis
    by (simp add: sample_selectors sample_constant)
qed

text \<open>
  Claim C10 (lines 118-125). For a \<open>MatMul\<close> node that is the last of the sequence,
  has a resolved constant input and for which the affine unit \<open>op\<close> has been built:
  the lookahead \<open>graph.node[i + 1]\<close> is out of range, and the pass stops at that node
  with an \<open>IndexError\<close>, having yielded no triple for it. From whatever position it
  is run, the pass over such a sequence ends by raising.
\<close>

theorem matmul_last_raises:
  assumes "Suc i = length (graph_node m)"
    and "op_type (graph_node m ! i) = ''MatMul''"
    and "used_params weights (graph_node m ! i) = p # ps"
    and "matmul_linear weights (graph_node m ! i) p = Inr op"
  shows "py_index (graph_node m) (int i + 1) = Inl IndexError \<and>
         walk ea th weights ov bd m i =
           \<lparr>yielded = [], printed = [], raised = Some IndexError, model_after = m\<rparr> \<and>
         (\<forall>j<length (graph_node m). raised (walk ea th weights ov bd m j) \<noteq> None)"
proof -
  from assms(1) have i: "i < length (graph_node m)"
    by simp
  have idx: "py_index (graph_node m) (int i + 1) = Inl IndexError"
    using assms(1) by (simp add: py_index_Suc)
  have "translate ea th weights ov bd m i = ([], m, Inl IndexError)"
    using assms(3,4) idx
    by (simp add: translate_MatMul [OF assms(2)] matmul_rule_def failed_def)
  then have "step ea th weights ov bd m i = ([], m, Inl IndexError)"
    by (simp add: step_def)
  from walk_raise [OF i this]
  have here: "walk ea th weights ov bd m i =
      \<lparr>yielded = [], printed = [], raised = Some IndexError, model_after = m\<rparr>"
    by simp
  from assms(1) have "graph_node m ! i = last (graph_node m)"
    by (metis diff_Suc_1 last_conv_nth length_0_conv nat.distinct(1))
  with assms(2,3) have "op_type (last (graph_node m)) = ''MatMul''"
    and "used_params weights (last (graph_node m)) \<noteq> []"
    by simp_all
  then have "raised (walk ea th weights ov bd m j) \<noteq> None" if "j < length (graph_node m)" for j
    using that by (intro walk_last_matmul)
  with idx here show ?thesis
    by blast
qed

theorem matmul_last_raises_witness:
  "walk attrs_of sample_torch (weights_of [sample_W, sample_b]) 11 0
     (make_model [make_node ''MatMul'' [''x'', ''W''] [''y''] []] [sample_W, sample_b]) 0 =
   \<lparr>yielded = [], printed = [], raised = Some IndexError,
    model_after = make_model [make_node ''MatMul'' [''x'', ''W''] [''y''] []] [sample_W, sample_b]\<rparr>"
proof -
  let ?w = "weights_of [sample_W, sample_b]"
  let ?m = "make_model [make_node ''MatMul'' [''x'', ''W''] [''y''] []] [sample_W, sample_b]"
  have a: "Suc 0 = length (graph_node ?m)"
    and b: "op_type (graph_node ?m ! 0) = ''MatMul''"
    and c: "used_params ?w (graph_node ?m ! 0) = sample_W # []"
    and d: "matmul_linear ?w (graph_node ?m ! 0) sample_W =
              Inr (Linear 2 3 (NDArray [3, 2] [1, 4, 2, 5, 3, 6]) None)"
    by (simp_all add: sample_selectors sample_used_params sample_linear)
  from matmul_last_raises [OF a b c d, of attrs_of sample_torch 11 0]
  show ?thesis by simp
qed

text \<open>
  Claim C1 (lines 118-130), amended. For a \<open>MatMul\<close> node at position \<open>i\<close> that has
  a resolved constant input, the first of them of at least two dimensions (of exactly
  two when the node's first input name is not in the Weight Index), and exactly one
  output name, followed at position \<open>i + 1\<close> by an \<open>Add\<close> node that has a resolved
  constant input \<open>b\<close> and a first output name \<open>add_out\<close>: the pass yields for the
  \<open>MatMul\<close> node one triple, whose unit is the affine unit of the \<open>MatMul\<close> with
  \<open>b\<close> as its bias and whose \<open>operator_id\<close> is \<open>add_out\<close>; the \<open>MatMul\<close> node's
  outputs become the \<open>Add\<close> node's, the \<open>Add\<close> node is removed from the sequence, and
  the pass goes on at the node that followed the \<open>Add\<close>, so no triple is yielded for
  the \<open>Add\<close>. When the \<open>Add\<close> is the last node, the fused triple is all that is
  yielded from position \<open>i\<close> on.

  Without the condition on the dimensions the claim fails: for a constant of one
  dimension, \<open>weight.shape[1]\<close> (line 115) raises before the lookahead, and no triple
  is yielded.
\<close>

theorem matmul_add_fusion:
  assumes "Suc i < length (graph_node m)"
    and "op_type (graph_node m ! i) = ''MatMul''"
    and "used_params weights (graph_node m ! i) = p # ps"
    and "2 \<le> length (dims p)"
    and "weights (hd (node_input (graph_node m ! i))) = None \<Longrightarrow> length (dims p) = 2"
    and "node_output (graph_node m ! i) = [out]"
    and "op_type (graph_node m ! Suc i) = ''Add''"
    and "used_params weights (graph_node m ! Suc i) = b # bs"
    and "node_output (graph_node m ! Suc i) = add_out # outs"
  shows "\<exists>fi fo w m'.
           matmul_linear weights (graph_node m ! i) p = Inr (Linear fi fo w None) \<and>
           graph_node m' =
             take i (graph_node m) @
             [(graph_node m ! i)\<lparr>node_output := add_out # outs\<rparr>] @
             drop (i + 2) (graph_node m) \<and>
           walk ea th weights ov bd m i =
             (walk ea th weights ov bd m' (Suc i))
               \<lparr>yielded := (add_out, ''MatMul_'' @ add_out, Linear fi fo w (Some (to_array b))) #
                   yielded (walk ea th weights ov bd m' (Suc i))\<rparr> \<and>
           (Suc (Suc i) = length (graph_node m) \<longrightarrow>
              yielded (walk ea th weights ov bd m i) =
                [(add_out, ''MatMul_'' @ add_out, Linear fi fo w (Some (to_array b)))] \<and>
              raised (walk ea th weights ov bd m i) = None)"
proof -
  let ?ns = "graph_node m"
  let ?node = "?ns ! i" and ?next = "?ns ! Suc i"
  let ?m' = "m\<lparr>graph_node := fuse_nodes ?ns i ?node ?next\<rparr>"
  from matmul_linear_builds [OF assms(3,4,5)] obtain fi fo w
    where lin: "matmul_linear weights ?node p = Inr (Linear fi fo w None)"
    by blast
  let ?op = "Linear fi fo w (Some (to_array b))"
  let ?t = "(add_out, ''MatMul_'' @ add_out, ?op)"
  from assms(1) have i: "i < length ?ns"
    by simp
  have nodes: "graph_node ?m' =
      take i ?ns @ [?node\<lparr>node_output := add_out # outs\<rparr>] @ drop (i + 2) ?ns"
    using assms(6,9) by (simp add: fuse_nodes_def)
  have "matmul_rule weights m i ?node (used_params weights ?node) = ([], ?m', Inr ?op)"
    using assms(1,3,6,7,8) lin
    by (simp add: matmul_rule_def py_index_Suc built_def)
  then have tr: "translate ea th weights ov bd m i = ([], ?m', Inr ?op)"
    by (simp add: translate_MatMul [OF assms(2)])
  have "graph_node ?m' ! i = ?node\<lparr>node_output := add_out # outs\<rparr>"
    using i assms(6,9) by (simp add: fuse_nodes_nth)
  with tr assms(2) have st: "step ea th weights ov bd m i = ([], ?m', Inr ?t)"
    by (simp add: step_def py_index_0)
  have wk: "walk ea th weights ov bd m i =
      (walk ea th weights ov bd ?m' (Suc i))
        \<lparr>yielded := ?t # yielded (walk ea th weights ov bd ?m' (Suc i))\<rparr>"
    by (simp add: walk_yield [OF i st])
  have last: "yielded (walk ea th weights ov bd m i) = [?t] \<and>
      raised (walk ea th weights ov bd m i) = None"
    if "Suc (Suc i) = length ?ns"
  proof -
    from that assms(1) have "\<not> Suc i < length (graph_node ?m')"
      by (simp add: length_fuse_nodes)
    from walk_end [OF this] wk show ?thesis
      by simp
  qed
  from lin nodes wk last show ?thesis
    by blast
qed

theorem matmul_add_fusion_witness:
  "yielded (walk attrs_of sample_torch (weights_of [sample_W, sample_b]) 11 0
     (make_model
        [make_node ''MatMul'' [''x'', ''W''] [''y''] [],
         make_node ''Add'' [''y'', ''b''] [''z''] []]
        [sample_W, sample_b]) 0) =
     [(''z'', ''MatMul_z'',
       Linear 2 3 (NDArray [3, 2] [1, 4, 2, 5, 3, 6]) (Some (to_array sample_b)))] \<and>
   raised (walk attrs_of sample_torch (weights_of [sample_W, sample_b]) 11 0
     (make_model
        [make_node ''MatMul'' [''x'', ''W''] [''y''] [],
         make_node ''Add'' [''y'', ''b''] [''z''] []]
        [sample_W, sample_b]) 0) = None \<and>
   yielded (walk attrs_of sample_torch (weights_of [sample_T, sample_b]) 11 0
     (make_model
        [make_node ''MatMul'' [''T'', ''x''] [''y''] [],
         make_node ''Add'' [''y'', ''b''] [''z''] []]
        [sample_T, sample_b]) 0) =
     [(''z'', ''MatMul_z'', Linear 3 2 (to_array sample_T) (Some (to_array sample_b)))]"
proof -
  let ?w = "weights_of [sample_W, sample_b]"
  let ?m = "make_model
        [make_node ''MatMul'' [''x'', ''W''] [''y''] [],
         make_node ''Add'' [''y'', ''b''] [''z''] []]
        [sample_W, sample_b]"
  let ?v = "weights_of [sample_T, sample_b]"
  let ?n = "make_model
        [make_node ''MatMul'' [''T'', ''x''] [''y''] [],
         make_node ''Add'' [''y'', ''b''] [''z''] []]
        [sample_T, sample_b]"
  have a: "Suc 0 < length (graph_node ?m)"
    and b: "op_type (graph_node ?m ! 0) = ''MatMul''"
    and c: "used_params ?w (graph_node ?m ! 0) = sample_W # []"
    and e: "node_output (graph_node ?m ! 0) = [''y'']"
    and f: "op_type (graph_node ?m ! Suc 0) = ''Add''"
    and g: "used_params ?w (graph_node ?m ! Suc 0) = sample_b # []"
    and h: "node_output (graph_node ?m ! Suc 0) = ''z'' # []"
    by (simp_all add: sample_selectors sample_used_params)
  have d: "2 \<le> length (dims sample_W)" "length (dims sample_W) = 2"
    by (simp_all add: sample_W_def)
  have l: "Suc (Suc 0) = length (graph_node ?m)"
    by (simp add: sample_selectors)
  from matmul_add_fusion [OF a b c d(1) d(2) e f g h, of attrs_of sample_torch 11 0]
  obtain fi fo w where "matmul_linear ?w (graph_node ?m ! 0) sample_W = Inr (Linear fi fo w None)"
    and "yielded (walk attrs_of sample_torch ?w 11 0 ?m 0) =
           [(''z'', ''MatMul_z'', Linear fi fo w (Some (to_array sample_b)))] \<and>
         raised (walk attrs_of sample_torch ?w 11 0 ?m 0) = None"
    using l by auto
  then have first: "yielded (walk attrs_of sample_torch ?w 11 0 ?m 0) =
      [(''z'', ''MatMul_z'',
        Linear 2 3 (NDArray [3, 2] [1, 4, 2, 5, 3, 6]) (Some (to_array sample_b)))] \<and>
      raised (walk attrs_of sample_torch ?w 11 0 ?m 0) = None"
    by (simp add: sample_selectors sample_linear)
  have a': "Suc 0 < length (graph_node ?n)"
    and b': "op_type (graph_node ?n ! 0) = ''MatMul''"
    and c': "used_params ?v (graph_node ?n ! 0) = sample_T # []"
    and e': "node_output (graph_node ?n ! 0) = [''y'']"
    and f': "op_type (graph_node ?n ! Suc 0) = ''Add''"
    and g': "used_params ?v (graph_node ?n ! Suc 0) = sample_b # []"
    and h': "node_output (graph_node ?n ! Suc 0) = ''z'' # []"
    by (simp_all add: sample_selectors sample_T_used_params)
  have d': "2 \<le> length (dims sample_T)"
    by (simp add: sample_T_def)
  have k': "?v (hd (node_input (graph_node ?n ! 0))) = None \<Longrightarrow> length (dims sample_T) = 2"
    by (simp add: sample_selectors sample_T_weights)
  have l': "Suc (Suc 0) = length (graph_node ?n)"
    by (simp add: sample_selectors)
  from matmul_add_fusion [OF a' b' c' d' k' e' f' g' h', of attrs_of sample_torch 11 0]
  obtain fi fo w where "matmul_linear ?v (graph_node ?n ! 0) sample_T = Inr (Linear fi fo w None)"
    and "yielded (walk attrs_of sample_torch ?v 11 0 ?n 0) =
           [(''z'', ''MatMul_z'', Linear fi fo w (Some (to_array sample_b)))]"
    using l' by auto
  then have "yielded (walk attrs_of sample_torch ?v 11 0 ?n 0) =
      [(''z'', ''MatMul_z'', Linear 3 2 (to_array sample_T) (Some (to_array sample_b)))]"
    by (simp add: sample_selectors sample_T_linear)
  with first show ?thesis
    by blast
qed

theorem matmul_add_fusion_counterexample:
  "op_type (graph_node sample_vector_graph ! 0) = ''MatMul'' \<and>
   used_params (weights_of (graph_initializer sample_vector_graph))
     (graph_node sample_vector_graph ! 0) = [sample_b] \<and>
   node_output (graph_node sample_vector_graph ! 0) = [''y''] \<and>
   op_type (graph_node sample_vector_graph ! 1) = ''Add'' \<and>
   used_params (weights_of (graph_initializer sample_vector_graph))
     (graph_node sample_vector_graph ! 1) = [sample_b] \<and>
   yielded (convert_operations attrs_of sample_torch sample_vector_graph 0) = [] \<and>
   raised (convert_operations attrs_of sample_torch sample_vector_graph 0) = Some IndexError"
  by code_simp

text \<open>
  Claim C6 (lines 128-130 and 204-206). When the first output names of the nodes of the
  input sequence are pairwise distinct, no two triples yielded by the pass have the same
  \<open>operator_id\<close>, also when the fusion gives the \<open>Add\<close> node's output name to the
  fused unit.
\<close>

theorem operator_ids_distinct:
  assumes "distinct (first_outputs (graph_node m))"
  shows "distinct (map fst (yielded (convert_operations ea th m bd)))"
proof (cases "opset_import m")
  case Nil
  then show ?thesis
    by (simp add: convert_operations_def py_index_0)
next
  case (Cons ov ovs)
  with assms walk_ids [of ea th "weights_of (graph_initializer m)" ov bd m 0] show ?thesis
    by (simp add: convert_operations_def py_index_0)
qed

theorem operator_ids_distinct_witness:
  "first_outputs (graph_node sample_graph) = [''y'', ''z'', ''r''] \<and>
   map fst (yielded (convert_operations attrs_of sample_torch sample_graph 0)) = [''z'', ''r''] \<and>
   distinct (map fst (yielded (convert_operations attrs_of sample_torch sample_graph 0)))"
proof -
  have fo: "first_outputs (graph_node sample_graph) = [''y'', ''z'', ''r'']"
    by (simp add: first_outputs_def sample_graph_def sample_selectors)
  then have "distinct (first_outputs (graph_node sample_graph))"
    by simp
  from operator_ids_distinct [OF this, of attrs_of sample_torch 0] fo show ?thesis
    by (simp add: sample_pass)
qed

end
